theory Spec2Isabelle
  imports Complex_Main "HOL-Library.Word"
begin

section \<open>Values and buffers\<close>

text \<open>
  A C \<^verbatim>\<open>double\<close> is a finite number or one of the special values the code tests with
  \<^verbatim>\<open>isnan\<close> and \<^verbatim>\<open>isinf\<close>. Finite arithmetic is exact here: rounding, overflow of a
  finite result to infinity and the sign of zero are not part of the model. The special values
  follow IEEE 754: NaN is absorbing, \<open>\<infinity> - \<infinity>\<close>, \<open>0 \<cdot> \<infinity>\<close>, \<open>0 / 0\<close> and
  \<open>\<infinity> / \<infinity>\<close> are NaN, and every ordered comparison with NaN is false.
\<close>

datatype double = Fin real | PInf | NInf | NaN

definition isnan :: "double \<Rightarrow> bool" where
  "isnan d = (d = NaN)"

definition isinf :: "double \<Rightarrow> bool" where
  "isinf d = (d = PInf \<or> d = NInf)"

fun dneg :: "double \<Rightarrow> double" where
  "dneg (Fin a) = Fin (- a)"
| "dneg PInf = NInf"
| "dneg NInf = PInf"
| "dneg NaN = NaN"

fun dneg_p :: "double \<Rightarrow> bool" where
  "dneg_p (Fin a) = (a < 0)"
| "dneg_p NInf = True"
| "dneg_p PInf = False"
| "dneg_p NaN = False"

definition inf_of_sign :: "bool \<Rightarrow> double" where
  "inf_of_sign neg = (if neg then NInf else PInf)"

definition dadd :: "double \<Rightarrow> double \<Rightarrow> double" where
  "dadd x y =
     (if x = NaN \<or> y = NaN then NaN
      else case x of
        Fin a \<Rightarrow> (case y of Fin b \<Rightarrow> Fin (a + b) | _ \<Rightarrow> y)
      | _ \<Rightarrow> (case y of Fin b \<Rightarrow> x | _ \<Rightarrow> if x = y then x else NaN))"

definition dsub :: "double \<Rightarrow> double \<Rightarrow> double" where
  "dsub x y = dadd x (dneg y)"

definition dmul :: "double \<Rightarrow> double \<Rightarrow> double" where
  "dmul x y =
     (if x = NaN \<or> y = NaN then NaN
      else case x of
        Fin a \<Rightarrow> (case y of Fin b \<Rightarrow> Fin (a * b)
                  | _ \<Rightarrow> if a = 0 then NaN else inf_of_sign ((a < 0) \<noteq> dneg_p y))
      | _ \<Rightarrow> (case y of Fin b \<Rightarrow> if b = 0 then NaN else inf_of_sign (dneg_p x \<noteq> (b < 0))
                  | _ \<Rightarrow> inf_of_sign (dneg_p x \<noteq> dneg_p y)))"

definition ddiv :: "double \<Rightarrow> double \<Rightarrow> double" where
  "ddiv x y =
     (if x = NaN \<or> y = NaN then NaN
      else case x of
        Fin a \<Rightarrow> (case y of
                    Fin b \<Rightarrow> if b = 0 then (if a = 0 then NaN else inf_of_sign (a < 0))
                             else Fin (a / b)
                  | _ \<Rightarrow> Fin 0)
      | _ \<Rightarrow> (case y of Fin b \<Rightarrow> inf_of_sign (dneg_p x \<noteq> (b < 0)) | _ \<Rightarrow> NaN))"


definition of_size :: "nat \<Rightarrow> double" where
  "of_size n = Fin (real n)"

text \<open>
  Loops whose body can fail (a read or a write outside a buffer) are folds over the
  iteration range that stop at the first failure.
\<close>

definition opt_fold :: "('a \<Rightarrow> 's \<Rightarrow> 's option) \<Rightarrow> 'a list \<Rightarrow> 's \<Rightarrow> 's option" where
  "opt_fold f xs s = fold (\<lambda>x r. case r of None \<Rightarrow> None | Some t \<Rightarrow> f x t) xs (Some s)"

text \<open>
  \<^verbatim>\<open>memmove(dst + doff, src + soff, n * sizeof(double))\<close>; \<open>None\<close> when the range
  leaves either buffer.
\<close>

definition memmove :: "'a list \<Rightarrow> nat \<Rightarrow> 'a list \<Rightarrow> nat \<Rightarrow> nat \<Rightarrow> 'a list option" where
  "memmove dst doff src soff n =
     (if soff + n \<le> length src \<and> doff + n \<le> length dst
      then Some (take doff dst @ take n (drop soff src) @ drop (doff + n) dst)
      else None)"


section \<open>Function trains and their parameterisation\<close>

text \<open>
  Modelled from the spec: the approximation options are an external collaborator that answers,
  per dimension, \<^verbatim>\<open>multi_approx_opts_get_dim_nparams\<close> and \<^verbatim>\<open>multi_approx_opts_linear_p\<close>.
\<close>

record MultiApproxOpts =
  dim_nparams :: "nat list"
  dim_linear :: "bool list"

definition multi_approx_opts_get_dim_nparams :: "MultiApproxOpts \<Rightarrow> nat \<Rightarrow> nat" where
  "multi_approx_opts_get_dim_nparams aopts jj = dim_nparams aopts ! jj"


text \<open>
  Modelled from the spec: the function train itself is an external collaborator. What the
  regression layer uses of it is its dimension, its ranks (\<open>dim + 1\<close> of them) and the values of
  its parameters, which it gets and sets as one flat vector.
\<close>

record FunctionTrain =
  ft_dim :: nat
  ft_ranks :: "nat list"
  ft_vals :: "double list"




definition function_train_update_params :: "FunctionTrain \<Rightarrow> double list \<Rightarrow> FunctionTrain" where
  "function_train_update_params f ps = f\<lparr>ft_vals := take (length (ft_vals f)) ps\<rparr>"

definition function_train_zeros :: "MultiApproxOpts \<Rightarrow> nat \<Rightarrow> nat list \<Rightarrow> FunctionTrain" where
  "function_train_zeros aopts d rks =
     \<lparr>ft_dim = d, ft_ranks = take (d + 1) rks,
      ft_vals = replicate
        (\<Sum>jj\<leftarrow>[0..<d]. rks ! jj * rks ! (jj + 1) * multi_approx_opts_get_dim_nparams aopts jj)
        (Fin 0)\<rparr>"

record FTparam =
  ftp_ft :: FunctionTrain
  ftp_dim :: nat
  nparams_per_uni :: "nat list"
  nparams_per_core :: "nat list"
  max_param_uni :: nat
  nparams :: nat
  params :: "double list"
  approx_opts :: MultiApproxOpts

text \<open>
  \<^verbatim>\<open>ft_param_alloc\<close>: the counts per core and per univariate function come from the ranks and
  the options; the buffer is zeroed and, when initial parameters are given, overwritten by them.
  It reads \<open>dim + 1\<close> ranks.
\<close>

definition ft_param_alloc ::
  "nat \<Rightarrow> MultiApproxOpts \<Rightarrow> double list option \<Rightarrow> nat list \<Rightarrow> FTparam option" where
  "ft_param_alloc d aopts ps rks =
     (if length rks < d + 1 then None else
      let per_core = map (\<lambda>jj. rks ! jj * rks ! (jj + 1) * multi_approx_opts_get_dim_nparams aopts jj)
                         [0..<d];
          n = sum_list per_core;
          per_uni = concat (map (\<lambda>jj. replicate (rks ! jj * rks ! (jj + 1))
                                         (multi_approx_opts_get_dim_nparams aopts jj)) [0..<d]);
          mx = fold (\<lambda>c m. if c > m then c else m) per_uni 0;
          f0 = function_train_zeros aopts d rks;
          p0 = replicate n (Fin 0)
      in case ps of
           None \<Rightarrow> Some \<lparr>ftp_ft = f0, ftp_dim = d, nparams_per_uni = per_uni,
                         nparams_per_core = per_core, max_param_uni = mx, nparams = n,
                         params = p0, approx_opts = aopts\<rparr>
         | Some src \<Rightarrow>
             (case memmove p0 0 src 0 n of
                None \<Rightarrow> None
              | Some p1 \<Rightarrow> Some \<lparr>ftp_ft = function_train_update_params f0 p1, ftp_dim = d,
                                 nparams_per_uni = per_uni, nparams_per_core = per_core,
                                 max_param_uni = mx, nparams = n, params = p1,
                                 approx_opts = aopts\<rparr>))"

definition ft_param_get_nparams :: "FTparam \<Rightarrow> nat" where
  "ft_param_get_nparams ftp = nparams ftp"

text \<open>\<^verbatim>\<open>ft_param_update_params\<close>: the full update, a \<^verbatim>\<open>memmove\<close> of \<open>nparams\<close> values.\<close>

definition ft_param_update_params :: "FTparam \<Rightarrow> double list \<Rightarrow> FTparam option" where
  "ft_param_update_params ftp src =
     (case memmove (params ftp) 0 src 0 (nparams ftp) of
        None \<Rightarrow> None
      | Some p \<Rightarrow> Some (ftp\<lparr>params := p, ftp_ft := function_train_update_params (ftp_ft ftp) p\<rparr>))"

text \<open>
  The four functions that walk the parameters by rank index share one loop nest: dimension
  \<open>kk\<close>, then output-rank index \<open>jj < ranks[kk+1]\<close>, then input-rank index \<open>ii < ranks[kk]\<close>,
  then the \<open>nparams_per_uni[ind]\<close> parameters of that univariate function, with \<open>ind\<close> counting
  the univariate functions met so far. \<open>rank_loops\<close> is that nest around a loop body.
\<close>

definition rank_loops ::
  "nat \<Rightarrow> nat list \<Rightarrow> nat list \<Rightarrow> (nat \<Rightarrow> nat \<Rightarrow> nat \<Rightarrow> 's \<Rightarrow> 's option) \<Rightarrow> 's \<Rightarrow> 's option" where
  "rank_loops d rks npu body s0 =
     map_option snd
       (opt_fold (\<lambda>kk. opt_fold (\<lambda>jj. opt_fold (\<lambda>ii (ind, s).
            map_option (Pair (ind + 1)) (opt_fold (\<lambda>ll. body kk jj ii) [0..<npu ! ind] s))
          [0..<rks ! kk]) [0..<rks ! (kk + 1)]) [0..<d] (0, s0))"

text \<open>
  The test of \<^verbatim>\<open>ft_param_update_restricted_ranks\<close>, \<^verbatim>\<open>extract_restricted_vals\<close> and
  \<^verbatim>\<open>ft_param_get_nparams_restrict\<close>, and the one of
  \<^verbatim>\<open>ft_param_update_inside_restricted_ranks\<close>.
\<close>

definition at_or_above :: "nat list \<Rightarrow> nat \<Rightarrow> nat \<Rightarrow> nat \<Rightarrow> bool" where
  "at_or_above rank_start kk jj ii =
     (if kk > 0 then ii \<ge> rank_start ! (kk - 1) \<or> jj \<ge> rank_start ! kk
      else jj \<ge> rank_start ! kk)"

definition inside :: "nat list \<Rightarrow> nat \<Rightarrow> nat \<Rightarrow> nat \<Rightarrow> bool" where
  "inside rank_start kk jj ii =
     (if kk > 0 then ii < rank_start ! (kk - 1) \<and> jj < rank_start ! kk
      else jj < rank_start ! kk)"

text \<open>
  The body of both updates. The state is the buffer, \<open>onparam_new\<close>, \<open>onparam_general\<close> and,
  as a record of what was done, the indices of the buffer that were assigned.
\<close>

definition update_body ::
  "bool \<Rightarrow> double list \<Rightarrow> double list \<times> nat \<times> nat \<times> nat list
     \<Rightarrow> (double list \<times> nat \<times> nat \<times> nat list) option" where
  "update_body sel src st =
     (case st of (p, onparam_new, onparam_general, written) \<Rightarrow>
        if sel then
          (if onparam_general < length p \<and> onparam_new < length src
           then Some (p[onparam_general := src ! onparam_new], onparam_new + 1,
                      onparam_general + 1, written @ [onparam_general])
           else None)
        else Some (p, onparam_new, onparam_general + 1, written))"

definition ft_param_update_restricted_ranks ::
  "FTparam \<Rightarrow> double list \<Rightarrow> nat list \<Rightarrow> (FTparam \<times> nat list) option" where
  "ft_param_update_restricted_ranks ftp src rank_start =
     (case rank_loops (ftp_dim ftp) (ft_ranks (ftp_ft ftp)) (nparams_per_uni ftp)
             (\<lambda>kk jj ii. update_body (at_or_above rank_start kk jj ii) src)
             (params ftp, 0, 0, []) of
        None \<Rightarrow> None
      | Some (p, onparam_new, onparam_general, written) \<Rightarrow>
          Some (ftp\<lparr>params := p, ftp_ft := function_train_update_params (ftp_ft ftp) p\<rparr>,
                written))"

definition ft_param_update_inside_restricted_ranks ::
  "FTparam \<Rightarrow> double list \<Rightarrow> nat list \<Rightarrow> (FTparam \<times> nat list) option" where
  "ft_param_update_inside_restricted_ranks ftp src rank_start =
     (case rank_loops (ftp_dim ftp) (ft_ranks (ftp_ft ftp)) (nparams_per_uni ftp)
             (\<lambda>kk jj ii. update_body (inside rank_start kk jj ii) src)
             (params ftp, 0, 0, []) of
        None \<Rightarrow> None
      | Some (p, onparam_new, onparam_general, written) \<Rightarrow>
          Some (ftp\<lparr>params := p, ftp_ft := function_train_update_params (ftp_ft ftp) p\<rparr>,
                written))"


definition extract_body ::
  "bool \<Rightarrow> double list \<Rightarrow> double list \<times> nat \<Rightarrow> (double list \<times> nat) option" where
  "extract_body sel full_vals st =
     (case st of (restrict_vals, onparam) \<Rightarrow>
        if sel then
          (if onparam < length full_vals
           then Some (restrict_vals @ [full_vals ! onparam], onparam + 1)
           else None)
        else Some (restrict_vals, onparam + 1))"

definition extract_restricted_vals ::
  "nat \<Rightarrow> nat list \<Rightarrow> FTparam \<Rightarrow> double list \<Rightarrow> double list option" where
  "extract_restricted_vals regopts_dim rank_start ftp full_vals =
     map_option fst
       (rank_loops regopts_dim (ft_ranks (ftp_ft ftp)) (nparams_per_uni ftp)
          (\<lambda>kk jj ii. extract_body (at_or_above rank_start kk jj ii) full_vals) ([], 0))"

text \<open>
  The complementary subsequence, as the spec words it: the entries of the full vector whose
  rank-index pair is inside the thresholds, in the same order.
\<close>

definition extract_inside_vals ::
  "nat \<Rightarrow> nat list \<Rightarrow> FTparam \<Rightarrow> double list \<Rightarrow> double list option" where
  "extract_inside_vals regopts_dim rank_start ftp full_vals =
     map_option fst
       (rank_loops regopts_dim (ft_ranks (ftp_ft ftp)) (nparams_per_uni ftp)
          (\<lambda>kk jj ii. extract_body (inside rank_start kk jj ii) full_vals) ([], 0))"

text \<open>
  The rank-index triple \<open>(kk, jj, ii)\<close> of every univariate function, and of every entry of
  the flat buffer, in the order of the loop nest.
\<close>

definition uni_index :: "nat \<Rightarrow> nat list \<Rightarrow> (nat \<times> nat \<times> nat) list" where
  "uni_index d rks =
     concat (map (\<lambda>kk. concat (map (\<lambda>jj. map (\<lambda>ii. (kk, jj, ii)) [0..<rks ! kk])
                                     [0..<rks ! (kk + 1)])) [0..<d])"

definition param_index :: "nat \<Rightarrow> nat list \<Rightarrow> nat list \<Rightarrow> (nat \<times> nat \<times> nat) list" where
  "param_index d rks npu =
     concat (map (\<lambda>(ind, t). replicate (npu ! ind) t) (enumerate 0 (uni_index d rks)))"

text \<open>
  The invariant of an \<open>FTparam\<close>: \<open>dim + 1\<close> ranks, one count per univariate function, and a
  flat buffer whose length is the total count.
\<close>

definition ft_param_wf :: "FTparam \<Rightarrow> bool" where
  "ft_param_wf ftp =
     (length (ft_ranks (ftp_ft ftp)) = ftp_dim ftp + 1 \<and>
      length (nparams_per_uni ftp) = length (uni_index (ftp_dim ftp) (ft_ranks (ftp_ft ftp))) \<and>
      nparams ftp = sum_list (nparams_per_uni ftp) \<and>
      length (params ftp) = nparams ftp \<and>
      length (ft_vals (ftp_ft ftp)) = nparams ftp)"

text \<open>
  What the proofs about the rank loops speak of: the entries of a list chosen by a mask, the
  merge of two lists by a mask, the mask of the entries at or above the thresholds, and the
  order of the rank-index triples.
\<close>

definition select :: "bool list \<Rightarrow> 'a list \<Rightarrow> 'a list" where
  "select bs xs = map snd (filter fst (zip bs xs))"

definition merge_sel :: "bool list \<Rightarrow> 'a list \<Rightarrow> 'a list \<Rightarrow> 'a list" where
  "merge_sel bs v q = map (\<lambda>(b, x, y). if b then x else y) (zip bs (zip v q))"

definition rank_mask :: "FTparam \<Rightarrow> nat list \<Rightarrow> bool list" where
  "rank_mask ftp rs = map (\<lambda>(kk, jj, ii). at_or_above rs kk jj ii)
       (param_index (ftp_dim ftp) (ft_ranks (ftp_ft ftp)) (nparams_per_uni ftp))"

definition rank_order_le :: "nat \<times> nat \<times> nat \<Rightarrow> nat \<times> nat \<times> nat \<Rightarrow> bool" where
  "rank_order_le a b =
     (case a of (kk, jj, ii) \<Rightarrow> case b of (kk', jj', ii') \<Rightarrow>
        kk < kk' \<or> (kk = kk' \<and> (jj < jj' \<or> (jj = jj' \<and> ii \<le> ii'))))"

text \<open>A small parameterised function train, for concrete instances.\<close>

definition example_aopts :: MultiApproxOpts where
  "example_aopts = \<lparr>dim_nparams = [2, 1], dim_linear = [True, True]\<rparr>"

definition example_ftp :: FTparam where
  "example_ftp =
     \<lparr>ftp_ft = \<lparr>ft_dim = 2, ft_ranks = [1, 2, 1], ft_vals = replicate 6 (Fin 0)\<rparr>,
      ftp_dim = 2, nparams_per_uni = [2, 2, 1, 1], nparams_per_core = [4, 2],
      max_param_uni = 2, nparams = 6, params = replicate 6 (Fin 0),
      approx_opts = example_aopts\<rparr>"

definition example_vals :: "double list" where
  "example_vals = map Fin [1, 2, 3, 4, 5, 6]"

section \<open>Regression memory manager\<close>

datatype FTPARAM_ST = LINEAR_ST | NONE_ST



record RegMemSpace =
  ndata :: nat
  one_data_size :: nat
  vals :: "double list"



text \<open>
  The manager. The running core totals (\<^verbatim>\<open>running_evals_lr\<close>, \<^verbatim>\<open>running_evals_rl\<close>,
  \<^verbatim>\<open>running_grad\<close>) belong to the function-train collaborator and are left out. An entry of
  \<^verbatim>\<open>lin_structure_vals\<close> is a pointer: uninitialised after allocation (\<open>None\<close>), and
  \<open>Some ii\<close> once it points to the values of \<^verbatim>\<open>all_grads[ii]\<close>.
\<close>

record RegressionMemManager =
  mem_dim :: nat
  mem_N :: nat
  evals :: RegMemSpace
  grad :: RegMemSpace
  grad_space :: RegMemSpace
  all_grads :: "RegMemSpace list"
  fparam_space :: RegMemSpace
  "structure" :: FTPARAM_ST
  once_eval_structure :: int
  lin_structure_vals :: "nat option list"
  lin_structure_inc :: "nat list"



text \<open>
  The two gradient routines of the core collaborator that \<^verbatim>\<open>regress_mem_manager_check_structure\<close>
  calls are parameters: \<open>grad_eval\<close> (for \<^verbatim>\<open>qmarray_param_grad_eval\<close>, used on core 0) gets the
  function train, the core, \<open>N\<close>, the points, the block it writes and its scratch space, and
  returns the new block and scratch; \<open>grad_eval_sparse_mult\<close> (for
  \<^verbatim>\<open>qmarray_param_grad_eval_sparse_mult\<close>) returns the new block.

  Beside the new manager the model returns the cores for which a gradient routine was called, in
  order. \<open>None\<close> is an access outside \<^verbatim>\<open>all_grads\<close> or the two \<^verbatim>\<open>lin_structure\<close> arrays.
\<close>

type_synonym grad_eval_fn =
  "FunctionTrain \<Rightarrow> nat \<Rightarrow> nat \<Rightarrow> double list \<Rightarrow> double list \<Rightarrow> double list
     \<Rightarrow> double list \<times> double list"

type_synonym grad_eval_sparse_fn =
  "FunctionTrain \<Rightarrow> nat \<Rightarrow> nat \<Rightarrow> double list \<Rightarrow> double list \<Rightarrow> double list"





section \<open>Function monitor and its hash table\<close>




















section \<open>Regression objectives\<close>

text \<open>
  How a call ends when it does not return: \<^verbatim>\<open>exit(1)\<close> after a message on \<^verbatim>\<open>stderr\<close>, a failed
  \<^verbatim>\<open>assert\<close>, or an access outside a buffer (where C has no defined behaviour).
\<close>

datatype abort = Exit string | AssertFail | Fault

definition rbind :: "abort + 'a \<Rightarrow> ('a \<Rightarrow> abort + 'b) \<Rightarrow> abort + 'b" where
  "rbind r f = (case r of Inl e \<Rightarrow> Inl e | Inr v \<Rightarrow> f v)"


definition res_fold :: "('a \<Rightarrow> 's \<Rightarrow> abort + 's) \<Rightarrow> 'a list \<Rightarrow> 's \<Rightarrow> abort + 's" where
  "res_fold f xs s = fold (\<lambda>x r. rbind r (f x)) xs (Inr s)"

datatype REGTYPE = ALS | AIO | REGNONE

datatype REGOBJ = FTLS | FTLS_SPARSEL2 | REGOBJNONE

record RegressOpts =
  ro_type :: REGTYPE
  ro_obj :: REGOBJ
  ro_dim :: nat
  ro_verbose :: int
  regularization_weight :: double
  max_als_sweeps :: nat
  als_active_core :: nat
  als_conv_tol :: double
  restrict_rank_opt :: "nat list"

definition regress_opts_alloc :: "nat \<Rightarrow> REGTYPE \<Rightarrow> REGOBJ \<Rightarrow> RegressOpts" where
  "regress_opts_alloc d ty ob =
     \<lparr>ro_type = ty, ro_obj = ob, ro_dim = d, ro_verbose = 0,
      regularization_weight = Fin (1 / 10 ^ 10), max_als_sweeps = 10, als_active_core = 0,
      als_conv_tol = Fin (1 / 10 ^ 5), restrict_rank_opt = replicate d 0\<rparr>"

text \<open>\<^verbatim>\<open>regress_opts_create\<close> exits on a type or an objective it does not know.\<close>

definition regress_opts_create :: "nat \<Rightarrow> REGTYPE \<Rightarrow> REGOBJ \<Rightarrow> abort + RegressOpts" where
  "regress_opts_create d ty ob =
     (if ty \<noteq> AIO \<and> ty \<noteq> ALS then Inl (Exit ''Error: REGTYPE unavailable'')
      else if ob \<noteq> FTLS \<and> ob \<noteq> FTLS_SPARSEL2 then Inl (Exit ''Error: REGOBJ unavailable'')
      else Inr (regress_opts_alloc d ty ob))"



text \<open>
  Modelled from the spec: the collaborators of the regression layer. The function train
  evaluates itself and its parameter gradient at \<open>N\<close> points (all parameters or those of one
  core, with or without the precomputed linear blocks of the manager), returning the \<open>N\<close>
  evaluations and the \<open>N\<close> gradient rows one after the other; it evaluates at one point, rounds,
  takes norms, and adds the gradient of a weighted squared norm to a gradient. The last field
  gives the values that \<^verbatim>\<open>ft_param_create_from_lin_ls\<close> writes (a least-squares fit with a
  random perturbation, drawn once and for all).
\<close>

record ft_library =
  function_train_linparam_grad_eval ::
    "FunctionTrain \<Rightarrow> nat \<Rightarrow> double list \<Rightarrow> RegressionMemManager \<Rightarrow> double list \<times> double list"
  function_train_param_grad_eval ::
    "FunctionTrain \<Rightarrow> nat \<Rightarrow> double list \<Rightarrow> RegressionMemManager \<Rightarrow> double list \<times> double list"
  function_train_param_eval :: "FunctionTrain \<Rightarrow> nat \<Rightarrow> double list \<Rightarrow> double list"
  function_train_core_linparam_grad_eval ::
    "FunctionTrain \<Rightarrow> nat \<Rightarrow> nat \<Rightarrow> double list \<Rightarrow> RegressionMemManager
       \<Rightarrow> double list \<times> double list"
  function_train_core_param_grad_eval ::
    "FunctionTrain \<Rightarrow> nat \<Rightarrow> nat \<Rightarrow> double list \<Rightarrow> RegressionMemManager
       \<Rightarrow> double list \<times> double list"
  function_train_core_param_eval ::
    "FunctionTrain \<Rightarrow> nat \<Rightarrow> nat \<Rightarrow> double list \<Rightarrow> RegressionMemManager \<Rightarrow> double list"
  function_train_param_grad_sqnorm ::
    "FunctionTrain \<Rightarrow> double list \<Rightarrow> double list option \<Rightarrow> double \<times> double list option"
  qmarray_param_grad_sqnorm ::
    "FunctionTrain \<Rightarrow> nat \<Rightarrow> double \<Rightarrow> double list option \<Rightarrow> double \<times> double list option"
  qmarray_param_grad_eval :: grad_eval_fn
  qmarray_param_grad_eval_sparse_mult :: grad_eval_sparse_fn
  function_train_eval :: "FunctionTrain \<Rightarrow> double list \<Rightarrow> double"
  function_train_round :: "FunctionTrain \<Rightarrow> double \<Rightarrow> MultiApproxOpts \<Rightarrow> FunctionTrain"
  function_train_norm2diff :: "FunctionTrain \<Rightarrow> FunctionTrain \<Rightarrow> double"
  function_train_norm2 :: "FunctionTrain \<Rightarrow> double"
  lin_ls_value :: "FTparam \<Rightarrow> nat \<Rightarrow> double list \<Rightarrow> double list \<Rightarrow> double \<Rightarrow> nat \<Rightarrow> double"

text \<open>
  Modelled from the spec: \<^verbatim>\<open>cblas_daxpy(n, a, x + xoff, 1, y, 1)\<close>, the scaled vector add
  \<open>y := a x + y\<close> on \<open>n\<close> entries.
\<close>

definition cblas_daxpy ::
  "nat \<Rightarrow> double \<Rightarrow> double list \<Rightarrow> nat \<Rightarrow> double list \<Rightarrow> double list option" where
  "cblas_daxpy n a x xoff y =
     (if xoff + n \<le> length x \<and> n \<le> length y
      then Some (map (\<lambda>i. dadd (dmul a (x ! (xoff + i))) (y ! i)) [0..<n] @ drop n y)
      else None)"

text \<open>\<^verbatim>\<open>for (ii = 0; ii < n; ii++) g[ii] /= (double) N\<close> and \<^verbatim>\<open>g[ii] = 0.0\<close>.\<close>

definition scale_grad :: "nat \<Rightarrow> nat \<Rightarrow> double list \<Rightarrow> double list option" where
  "scale_grad n N g =
     (if n \<le> length g then Some (map (\<lambda>v. ddiv v (of_size N)) (take n g) @ drop n g) else None)"

definition zero_grad :: "nat \<Rightarrow> double list option \<Rightarrow> double list option option" where
  "zero_grad n g =
     (case g of
        None \<Rightarrow> Some None
      | Some gv \<Rightarrow> if n \<le> length gv then Some (Some (replicate n (Fin 0) @ drop n gv)) else None)"

text \<open>
  \<^verbatim>\<open>ft_param_eval_objective_aio_ls\<close>. With a gradient: the evaluations and gradient rows
  come from the collaborator (the linear routine when the manager says \<open>LINEAR_ST\<close>) and land
  in the manager; each point is checked, adds \<open>0.5 * resid * resid\<close> to \<open>out\<close> and
  \<open>-resid\<close> times its row to the gradient; both are divided by \<open>N\<close>. Without: the
  evaluations only.
\<close>

definition aio_ls_point ::
  "nat \<Rightarrow> double list \<Rightarrow> double list \<Rightarrow> double list \<Rightarrow> nat \<Rightarrow> double \<times> double list
     \<Rightarrow> abort + (double \<times> double list)" where
  "aio_ls_point np y ev gr ii st =
     (case st of (out, g) \<Rightarrow>
        if \<not> (ii < length y \<and> ii < length ev) then Inl Fault
        else
          (let resid = dsub (y ! ii) (ev ! ii)
           in if isnan (ev ! ii) then Inl (Exit ''Warning, evaluation of FT is nan in aio_ls'')
              else if isinf (ev ! ii) then Inl (Exit ''Warning, evaluation of FT is inf in aio_ls'')
              else
                (let out' = dadd out (dmul (dmul (Fin (1 / 2)) resid) resid)
                 in if isinf out' then Inl (Exit ''out = %G,resid=%G,memeval=%G,y=%G'')
                    else (case cblas_daxpy np (dneg resid) gr (ii * np) g of
                            None \<Rightarrow> Inl Fault
                          | Some g' \<Rightarrow> Inr (out', g')))))"

definition ls_point_nograd ::
  "double list \<Rightarrow> double list \<Rightarrow> nat \<Rightarrow> double \<Rightarrow> abort + double" where
  "ls_point_nograd y ev ii out =
     (if \<not> (ii < length y \<and> ii < length ev) then Inl Fault
      else (let resid = dsub (y ! ii) (ev ! ii)
            in Inr (dadd out (dmul (dmul (Fin (1 / 2)) resid) resid))))"

definition ft_param_eval_objective_aio_ls ::
  "ft_library \<Rightarrow> FTparam \<Rightarrow> RegressionMemManager \<Rightarrow> nat \<Rightarrow> double list \<Rightarrow> double list
     \<Rightarrow> double list option \<Rightarrow> abort + (double \<times> double list option \<times> RegressionMemManager)" where
  "ft_param_eval_objective_aio_ls lib ftp mem N x y grd =
     (case grd of
        Some g0 \<Rightarrow>
          (let (ev, gr) =
                 (if structure mem = LINEAR_ST
                  then function_train_linparam_grad_eval lib (ftp_ft ftp) N x mem
                  else function_train_param_grad_eval lib (ftp_ft ftp) N x mem);
               mem' = mem\<lparr>evals := (evals mem)\<lparr>vals := ev\<rparr>, grad := (grad mem)\<lparr>vals := gr\<rparr>\<rparr>
           in rbind (res_fold (aio_ls_point (nparams ftp) y ev gr) [0..<N] (Fin 0, g0))
                (\<lambda>(out, g).
                   (let out' = ddiv out (of_size N)
                    in case scale_grad (nparams ftp) N g of
                         None \<Rightarrow> Inl Fault
                       | Some g' \<Rightarrow>
                           if isnan out'
                           then Inl (Exit ''Regress aio eval objective ls (with grad != NULL) is NaN'')
                           else if isinf out'
                           then Inl (Exit ''Regress aio eval objective ls (with grad != NULL) is Inf'')
                           else Inr (out', Some g', mem'))))
      | None \<Rightarrow>
          (let ev = function_train_param_eval lib (ftp_ft ftp) N x;
               mem' = mem\<lparr>evals := (evals mem)\<lparr>vals := ev\<rparr>\<rparr>
           in rbind (res_fold (ls_point_nograd y ev) [0..<N] (Fin 0))
                (\<lambda>out.
                   (let out' = ddiv out (of_size N)
                    in if isnan out'
                       then Inl (Exit ''Regress aio eval objective ls (with grad = NULL) is NaN'')
                       else if isinf out'
                       then Inl (Exit ''Regress aio eval objective ls (with grad = NULL) is Inf'')
                       else Inr (out', None, mem')))))"

text \<open>
  \<^verbatim>\<open>ft_param_eval_objective_als_ls\<close>: the same sums over the parameters of the active core,
  with no check of any value.
\<close>

definition als_ls_point ::
  "nat \<Rightarrow> double list \<Rightarrow> double list \<Rightarrow> double list \<Rightarrow> nat \<Rightarrow> double \<times> double list
     \<Rightarrow> abort + (double \<times> double list)" where
  "als_ls_point np y ev gr ii st =
     (case st of (out, g) \<Rightarrow>
        if \<not> (ii < length y \<and> ii < length ev) then Inl Fault
        else
          (let resid = dsub (y ! ii) (ev ! ii);
               out' = dadd out (dmul (dmul (Fin (1 / 2)) resid) resid)
           in case cblas_daxpy np (dneg resid) gr (ii * np) g of
                None \<Rightarrow> Inl Fault
              | Some g' \<Rightarrow> Inr (out', g')))"

definition ft_param_eval_objective_als_ls ::
  "ft_library \<Rightarrow> FTparam \<Rightarrow> nat \<Rightarrow> RegressionMemManager \<Rightarrow> nat \<Rightarrow> double list \<Rightarrow> double list
     \<Rightarrow> double list option \<Rightarrow> abort + (double \<times> double list option \<times> RegressionMemManager)" where
  "ft_param_eval_objective_als_ls lib ftp active_core mem N x y grd =
     (if \<not> active_core < length (nparams_per_core ftp) then Inl Fault
      else
        (let np = nparams_per_core ftp ! active_core
         in case grd of
              Some g0 \<Rightarrow>
                (let (ev, gr) =
                       (if structure mem = LINEAR_ST
                        then function_train_core_linparam_grad_eval lib (ftp_ft ftp) active_core N x mem
                        else function_train_core_param_grad_eval lib (ftp_ft ftp) active_core N x mem);
                     mem' = mem\<lparr>evals := (evals mem)\<lparr>vals := ev\<rparr>,
                                grad := (grad mem)\<lparr>vals := gr\<rparr>\<rparr>
                 in rbind (res_fold (als_ls_point np y ev gr) [0..<N] (Fin 0, g0))
                      (\<lambda>(out, g).
                         case scale_grad np N g of
                           None \<Rightarrow> Inl Fault
                         | Some g' \<Rightarrow> Inr (ddiv out (of_size N), Some g', mem')))
            | None \<Rightarrow>
                (let ev = function_train_core_param_eval lib (ftp_ft ftp) active_core N x mem;
                     mem' = mem\<lparr>evals := (evals mem)\<lparr>vals := ev\<rparr>\<rparr>
                 in rbind (res_fold (ls_point_nograd y ev) [0..<N] (Fin 0))
                      (\<lambda>out. Inr (ddiv out (of_size N), None, mem')))))"









text \<open>
  The older objective \<^verbatim>\<open>regress_core_LS\<close> of \<^verbatim>\<open>lib_clinalg/regress.c\<close> works on a
  \<^verbatim>\<open>RegressALS\<close>; its scratch arrays are left out. Its two collaborators are parameters:
  the evaluation at one point with the gradient in the parameters of the core, and the plain
  evaluation.
\<close>

record RegressALS =
  als_dim :: nat
  als_nparams :: "nat list"
  als_N :: nat
  als_y :: "double list"
  als_x :: "double list"
  als_core :: nat
  als_ft :: FunctionTrain

definition core_ls_point ::
  "(FunctionTrain \<Rightarrow> double list \<Rightarrow> nat \<Rightarrow> nat \<Rightarrow> double \<times> double list) \<Rightarrow> RegressALS \<Rightarrow> nat
     \<Rightarrow> nat \<Rightarrow> double \<times> double list \<Rightarrow> abort + (double \<times> double list)" where
  "core_ls_point core_grad_eval als nparam ii st =
     (case st of (out, g) \<Rightarrow>
        if \<not> ii < length (als_y als) then Inl Fault
        else
          (let (eval, grad_space) =
                 core_grad_eval (als_ft als) (take (als_dim als) (drop (ii * als_dim als) (als_x als)))
                   (als_core als) nparam;
               resid = dsub (als_y als ! ii) eval;
               out' = dadd out (dmul (dmul (Fin (1 / 2)) resid) resid)
           in case cblas_daxpy nparam (dneg resid) grad_space 0 g of
                None \<Rightarrow> Inl Fault
              | Some g' \<Rightarrow> Inr (out', g')))"

definition core_ls_point_nograd ::
  "(FunctionTrain \<Rightarrow> double list \<Rightarrow> double) \<Rightarrow> RegressALS \<Rightarrow> nat \<Rightarrow> double \<Rightarrow> abort + double" where
  "core_ls_point_nograd ft_eval als ii out =
     (if \<not> ii < length (als_y als) then Inl Fault
      else
        (let eval = ft_eval (als_ft als) (take (als_dim als) (drop (ii * als_dim als) (als_x als)));
             resid = dsub (als_y als ! ii) eval
         in Inr (dadd out (dmul (dmul (Fin (1 / 2)) resid) resid))))"

definition regress_core_LS ::
  "(FunctionTrain \<Rightarrow> double list \<Rightarrow> nat \<Rightarrow> nat \<Rightarrow> double \<times> double list)
     \<Rightarrow> (FunctionTrain \<Rightarrow> double list \<Rightarrow> double)
     \<Rightarrow> (FunctionTrain \<Rightarrow> nat \<Rightarrow> nat \<Rightarrow> double list \<Rightarrow> FunctionTrain)
     \<Rightarrow> nat \<Rightarrow> double list \<Rightarrow> double list option \<Rightarrow> RegressALS
     \<Rightarrow> abort + (double \<times> double list option \<times> RegressALS)" where
  "regress_core_LS core_grad_eval ft_eval core_update nparam param grd als =
     (if \<not> als_core als < length (als_nparams als) then Inl Fault
      else if nparam \<noteq> als_nparams als ! als_core als then Inl AssertFail
      else
        (let als1 = als\<lparr>als_ft := core_update (als_ft als) (als_core als) nparam param\<rparr>
         in case zero_grad nparam grd of
              None \<Rightarrow> Inl Fault
            | Some None \<Rightarrow>
                rbind (res_fold (core_ls_point_nograd ft_eval als1) [0..<als_N als1] (Fin 0))
                  (\<lambda>out. Inr (out, None, als1))
            | Some (Some g0) \<Rightarrow>
                rbind (res_fold (core_ls_point core_grad_eval als1 nparam) [0..<als_N als1] (Fin 0, g0))
                  (\<lambda>(out, g). Inr (out, Some g, als1))))"


text \<open>
  The sums the spec words: half the squared residual \<open>y\<^sub>i - f(x\<^sub>i)\<close> over the points, and
  minus the residual times the gradient row of the point, for one parameter.
\<close>

definition ls_sum :: "real list \<Rightarrow> real list \<Rightarrow> nat \<Rightarrow> real" where
  "ls_sum yr er N = (\<Sum>i<N. 1 / 2 * (yr ! i - er ! i)\<^sup>2)"











section \<open>Regression runs\<close>
















section \<open>The regression interface\<close>

text \<open>
  \<^verbatim>\<open>struct FTRegress\<close>. The options are absent (\<^verbatim>\<open>NULL\<close>) until an algorithm and an objective
  are set.
\<close>

record FTRegress =
  ftr_type :: REGTYPE
  ftr_obj :: REGOBJ
  ftr_dim :: nat
  ftr_approx_opts :: MultiApproxOpts
  ftr_ftp :: FTparam
  ftr_regopts :: "RegressOpts option"
  adapt :: int
  kickrank :: nat
  maxrank :: nat
  roundtol :: double
  kfold :: nat
  finalize :: int
  opt_restricted :: int

definition ft_regress_alloc :: "nat \<Rightarrow> MultiApproxOpts \<Rightarrow> nat list \<Rightarrow> FTRegress option" where
  "ft_regress_alloc d aopts ranks =
     map_option (\<lambda>ftp.
        \<lparr>ftr_type = REGNONE, ftr_obj = REGOBJNONE, ftr_dim = d, ftr_approx_opts = aopts,
         ftr_ftp = ftp, ftr_regopts = None, adapt = 0, kickrank = 1, maxrank = 10,
         roundtol = Fin (1 / 10 ^ 8), kfold = 3, finalize = 1, opt_restricted = 0\<rparr>)
       (ft_param_alloc d aopts None ranks)"

definition ft_regress_set_alg_and_obj :: "FTRegress \<Rightarrow> REGTYPE \<Rightarrow> REGOBJ \<Rightarrow> abort + FTRegress" where
  "ft_regress_set_alg_and_obj ftr ty ob =
     (if ty \<noteq> ALS \<and> ty \<noteq> AIO then Inl (Exit ''Error: Regularization type not available'')
      else if ob \<noteq> FTLS \<and> ob \<noteq> FTLS_SPARSEL2
      then Inl (Exit ''Error: Regularization type not available'')
      else rbind (regress_opts_create (ftr_dim ftr) ty ob)
             (\<lambda>ro. Inr (ftr\<lparr>ftr_type := ty, ftr_obj := ob, ftr_regopts := Some ro\<rparr>)))"










section \<open>Cross validation\<close>









section \<open>Rank adaptation\<close>




































section \<open>Properties\<close>

subsection \<open>Folds that can fail\<close>

lemma fold_opt_None: "fold (\<lambda>x r. case r of None \<Rightarrow> None | Some t \<Rightarrow> f x t) xs None = None"
  by (induction xs) simp_all

lemma opt_fold_Nil [simp]: "opt_fold f [] s = Some s"
  by (simp add: opt_fold_def)

lemma opt_fold_Cons [simp]:
  "opt_fold f (x # xs) s = (case f x s of None \<Rightarrow> None | Some t \<Rightarrow> opt_fold f xs t)"
  by (simp add: opt_fold_def fold_opt_None split: option.splits)

lemma opt_fold_append:
  "opt_fold f (xs @ ys) s = (case opt_fold f xs s of None \<Rightarrow> None | Some t \<Rightarrow> opt_fold f ys t)"
  by (induction xs arbitrary: s) (simp_all split: option.splits)

lemma opt_fold_concat':
  "opt_fold f (concat xss) s = opt_fold (\<lambda>xs. opt_fold f xs) xss s"
  by (induction xss arbitrary: s) (simp_all add: opt_fold_append split: option.splits)

lemma opt_fold_concat: "opt_fold f (concat xss) = opt_fold (\<lambda>xs. opt_fold f xs) xss"
  by (rule ext) (rule opt_fold_concat')

lemma opt_fold_map': "opt_fold f (map g xs) s = opt_fold (\<lambda>x. f (g x)) xs s"
  by (induction xs arbitrary: s) (simp_all split: option.splits)

lemma opt_fold_map: "opt_fold f (map g xs) = opt_fold (\<lambda>x. f (g x)) xs"
  by (rule ext) (rule opt_fold_map')

lemma opt_fold_blocks:
  "opt_fold (\<lambda>t (ind, s). map_option (Pair (ind + 1)) (opt_fold (\<lambda>ll. body t) [0..<npu ! ind] s))
      ts (ind0, s0)
   = map_option (Pair (ind0 + length ts))
       (opt_fold body (concat (map (\<lambda>(i, t). replicate (npu ! i) t) (enumerate ind0 ts))) s0)"
proof (induction ts arbitrary: ind0 s0)
  case Nil
  then show ?case by simp
next
  case (Cons t ts)
  have inner: "opt_fold (\<lambda>ll. body t) [0..<npu ! ind0] s0 = opt_fold body (replicate (npu ! ind0) t) s0"
    using opt_fold_map'[of body "\<lambda>_. t" "[0..<npu ! ind0]" s0]
    by (simp add: map_replicate_const)
  show ?case
  proof (cases "opt_fold body (replicate (npu ! ind0) t) s0")
    case None
    then show ?thesis by (simp add: inner opt_fold_append)
  next
    case (Some s1)
    then show ?thesis
      using Cons.IH[of "Suc ind0" s1] by (simp add: inner opt_fold_append)
  qed
qed

lemma rank_loops_flat:
  "rank_loops d rks npu body s0 =
     opt_fold (\<lambda>(kk, jj, ii). body kk jj ii) (param_index d rks npu) s0"
proof -
  let ?F = "\<lambda>t (ind, s). map_option (Pair (ind + 1))
              (opt_fold (\<lambda>ll. (\<lambda>(kk, jj, ii). body kk jj ii) t) [0..<npu ! ind] s)"
  have nest: "opt_fold (\<lambda>kk. opt_fold (\<lambda>jj. opt_fold (\<lambda>ii (ind, s).
            map_option (Pair (ind + 1)) (opt_fold (\<lambda>ll. body kk jj ii) [0..<npu ! ind] s))
          [0..<rks ! kk]) [0..<rks ! (kk + 1)]) [0..<d] (0, s0)
        = opt_fold ?F (uni_index d rks) (0, s0)"
    by (simp add: uni_index_def opt_fold_concat opt_fold_map)
  show ?thesis
    unfolding rank_loops_def nest opt_fold_blocks param_index_def
    by (simp add: option.map_comp comp_def option.map_ident)
qed

subsection \<open>Restricted and inside updates of the parameters\<close>

lemma select_Nil [simp]: "select [] xs = []" "select bs [] = []"
  by (simp_all add: select_def)

lemma select_Cons [simp]: "select (b # bs) (x # xs) = (if b then x # select bs xs else select bs xs)"
  by (simp add: select_def)

lemma merge_sel_Cons [simp]:
  "merge_sel (b # bs) (x # v) (y # q) = (if b then x else y) # merge_sel bs v q"
  by (simp add: merge_sel_def)

lemma merge_sel_Nil [simp]: "merge_sel [] v q = []"
  by (simp add: merge_sel_def)

lemma update_body_True:
  "g < length p \<Longrightarrow> n < length src \<Longrightarrow>
   update_body True src (p, n, g, w) = Some (p[g := src ! n], n + 1, g + 1, w @ [g])"
  by (simp add: update_body_def)

lemma update_body_False: "update_body False src (p, n, g, w) = Some (p, n, g + 1, w)"
  by (simp add: update_body_def)

lemma extract_body_True:
  "g < length v \<Longrightarrow> extract_body True v (acc, g) = Some (acc @ [v ! g], g + 1)"
  by (simp add: extract_body_def)

lemma extract_body_False: "extract_body False v (acc, g) = Some (acc, g + 1)"
  by (simp add: extract_body_def)

lemma update_body_scatter:
  "length v = length bs \<Longrightarrow> length q = length bs \<Longrightarrow>
   opt_fold (\<lambda>b. update_body b (s0 @ select bs v @ s1)) bs (pre @ q, length s0, length pre, w)
   = Some (pre @ merge_sel bs v q, length s0 + length (select bs v), length pre + length bs,
           w @ select bs [length pre..<length pre + length bs])"
proof (induction bs arbitrary: v q s0 pre w)
  case Nil
  then show ?case by simp
next
  case (Cons b bs)
  from Cons.prems obtain x v' where v: "v = x # v'" "length v' = length bs"
    by (cases v) auto
  from Cons.prems obtain y q' where q: "q = y # q'" "length q' = length bs"
    by (cases q) auto
  have rng: "[length pre..<length pre + Suc (length bs)]
             = length pre # [length (pre @ [y])..<length (pre @ [y]) + length bs]"
  proof -
    have "[length pre..<length pre + Suc (length bs)]
          = length pre # [Suc (length pre)..<length pre + Suc (length bs)]"
      by (rule upt_conv_Cons) simp
    then show ?thesis by simp
  qed
  show ?case
  proof (cases b)
    case True
    have "opt_fold (\<lambda>b. update_body b ((s0 @ [x]) @ select bs v' @ s1)) bs
            ((pre @ [x]) @ q', length (s0 @ [x]), length (pre @ [x]), w @ [length pre])
          = Some ((pre @ [x]) @ merge_sel bs v' q', length (s0 @ [x]) + length (select bs v'),
                  length (pre @ [x]) + length bs,
                  (w @ [length pre]) @ select bs [length (pre @ [x])..<length (pre @ [x]) + length bs])"
      using Cons.IH[OF v(2) q(2)] by blast
    moreover have "update_body True (s0 @ select (b # bs) v @ s1) (pre @ q, length s0, length pre, w)
          = Some ((pre @ [x]) @ q', length (s0 @ [x]), length (pre @ [x]), w @ [length pre])"
      using True v q by (simp add: update_body_True nth_append)
    ultimately show ?thesis
      using True v q rng by simp
  next
    case False
    have "opt_fold (\<lambda>b. update_body b (s0 @ select bs v' @ s1)) bs
            ((pre @ [y]) @ q', length s0, length (pre @ [y]), w)
          = Some ((pre @ [y]) @ merge_sel bs v' q', length s0 + length (select bs v'),
                  length (pre @ [y]) + length bs,
                  w @ select bs [length (pre @ [y])..<length (pre @ [y]) + length bs])"
      using Cons.IH[OF v(2) q(2)] by blast
    moreover have "update_body False (s0 @ select (b # bs) v @ s1) (pre @ q, length s0, length pre, w)
          = Some ((pre @ [y]) @ q', length s0, length (pre @ [y]), w)"
      using False v q by (simp add: update_body_False)
    ultimately show ?thesis
      using False v q rng by simp
  qed
qed

lemma extract_body_select:
  "length v = length bs \<Longrightarrow>
   opt_fold (\<lambda>b. extract_body b (pre @ v)) bs (acc, length pre)
   = Some (acc @ select bs v, length pre + length bs)"
proof (induction bs arbitrary: v pre acc)
  case Nil
  then show ?case by simp
next
  case (Cons b bs)
  from Cons.prems obtain x v' where v: "v = x # v'" "length v' = length bs"
    by (cases v) auto
  have "opt_fold (\<lambda>b. extract_body b ((pre @ [x]) @ v')) bs (acc', length (pre @ [x]))
        = Some (acc' @ select bs v', length (pre @ [x]) + length bs)" for acc'
    using Cons.IH[OF v(2)] by blast
  then have IH: "opt_fold (\<lambda>b. extract_body b (pre @ v)) bs (acc', Suc (length pre))
        = Some (acc' @ select bs v', Suc (length pre + length bs))" for acc'
    using v by simp
  show ?case
  proof (cases b)
    case True
    have "extract_body True (pre @ v) (acc, length pre) = Some (acc @ [x], Suc (length pre))"
      using v by (simp add: extract_body_True nth_append)
    then show ?thesis using True v IH[of "acc @ [x]"] by simp
  next
    case False
    then show ?thesis using v IH[of acc] by (simp add: extract_body_False)
  qed
qed

lemma merge_sel_complement:
  "length v = length bs \<Longrightarrow> length q = length bs \<Longrightarrow>
   merge_sel (map Not bs) v (merge_sel bs v q) = v"
proof (induction bs arbitrary: v q)
  case Nil
  then show ?case by simp
next
  case (Cons b bs)
  then show ?case by (cases v; cases q) auto
qed

lemma length_merge_sel: 
  "length v = length bs \<Longrightarrow> length q = length bs \<Longrightarrow> length (merge_sel bs v q) = length bs"
  by (simp add: merge_sel_def)

lemma select_partition_set:
  "length xs = length bs \<Longrightarrow>
   set (select bs xs) \<union> set (select (map Not bs) xs) = set xs"
proof (induction bs arbitrary: xs)
  case Nil
  then show ?case by simp
next
  case (Cons b bs)
  then show ?case by (cases xs) auto
qed

lemma select_subset: "set (select bs xs) \<subseteq> set xs"
  by (auto simp: select_def dest: set_zip_rightD)

lemma select_partition_distinct:
  "length xs = length bs \<Longrightarrow> distinct xs \<Longrightarrow>
   distinct (select bs xs @ select (map Not bs) xs)"
proof (induction bs arbitrary: xs)
  case Nil
  then show ?case by simp
next
  case (Cons b bs)
  then obtain x xs' where xs: "xs = x # xs'" "length xs' = length bs" "x \<notin> set xs'" "distinct xs'"
    by (cases xs) auto
  have "x \<notin> set (select bs xs')" "x \<notin> set (select (map Not bs) xs')"
    using xs(3) select_subset by fastforce+
  then show ?case
    using Cons.IH[OF xs(2) xs(4)] xs by auto
qed

lemma select_filter_nth:
  "length xs = length bs \<Longrightarrow> select bs xs = map (\<lambda>i. xs ! i) (filter (\<lambda>i. bs ! i) [0..<length bs])"
proof (induction bs arbitrary: xs)
  case Nil
  then show ?case by simp
next
  case (Cons b bs)
  then obtain x xs' where xs: "xs = x # xs'" "length xs' = length bs"
    by (cases xs) auto
  have "[0..<length (b # bs)] = 0 # map Suc [0..<length bs]"
    by (simp add: upt_conv_Cons map_Suc_upt del: upt_Suc)
  then show ?case
    using Cons.IH[OF xs(2)] xs by (simp add: filter_map comp_def del: upt_Suc)
qed

lemma length_param_index:
  "length npu = length (uni_index d rks) \<Longrightarrow> length (param_index d rks npu) = sum_list npu"
proof -
  assume len: "length npu = length (uni_index d rks)"
  have m: "map (\<lambda>x. npu ! fst x) (enumerate 0 (uni_index d rks)) = npu"
    using len by (auto simp: list_eq_iff_nth_eq nth_enumerate_eq)
  have "length (param_index d rks npu)
        = sum_list (map (\<lambda>x. npu ! fst x) (enumerate 0 (uni_index d rks)))"
    by (simp add: param_index_def length_concat comp_def split_def)
  then show ?thesis by (simp only: m)
qed

lemma inside_not_at_or_above: "inside rs kk jj ii = (\<not> at_or_above rs kk jj ii)"
  by (auto simp: inside_def at_or_above_def)

lemma rank_loops_at_or_above:
  "rank_loops (ftp_dim ftp) (ft_ranks (ftp_ft ftp)) (nparams_per_uni ftp)
      (\<lambda>kk jj ii. body (at_or_above rs kk jj ii)) s
   = opt_fold body (rank_mask ftp rs) s"
  by (simp add: rank_loops_flat rank_mask_def opt_fold_map' split_def)

lemma rank_loops_inside:
  "rank_loops (ftp_dim ftp) (ft_ranks (ftp_ft ftp)) (nparams_per_uni ftp)
      (\<lambda>kk jj ii. body (inside rs kk jj ii)) s
   = opt_fold body (map Not (rank_mask ftp rs)) s"
  by (simp add: rank_loops_flat rank_mask_def opt_fold_map' split_def inside_not_at_or_above)

lemma length_rank_mask: "ft_param_wf ftp \<Longrightarrow> length (rank_mask ftp rs) = nparams ftp"
  by (simp add: rank_mask_def ft_param_wf_def length_param_index)

lemma select_upt_filter:
  "length bs = n \<Longrightarrow> select bs [0..<n] = filter (\<lambda>g. bs ! g) [0..<n]"
proof -
  assume n: "length bs = n"
  have "select bs [0..<n] = map (\<lambda>i. [0..<n] ! i) (filter (\<lambda>i. bs ! i) [0..<length bs])"
    using select_filter_nth[of "[0..<n]" bs] n by simp
  also have "\<dots> = map (\<lambda>i. i) (filter (\<lambda>i. bs ! i) [0..<n])"
    using n by (intro map_cong) auto
  finally show ?thesis by simp
qed

lemma restricted_values:
  assumes wf: "ft_param_wf ftp" and v: "length v = nparams ftp"
  shows "extract_restricted_vals (ftp_dim ftp) rs ftp v = Some (select (rank_mask ftp rs) v)"
    and "extract_inside_vals (ftp_dim ftp) rs ftp v = Some (select (map Not (rank_mask ftp rs)) v)"
proof -
  have len: "length v = length (rank_mask ftp rs)"
    using wf v by (simp add: length_rank_mask)
  show "extract_restricted_vals (ftp_dim ftp) rs ftp v = Some (select (rank_mask ftp rs) v)"
    using extract_body_select[of v "rank_mask ftp rs" "[]" "[]"] len
      rank_loops_at_or_above[of ftp "\<lambda>b. extract_body b v" rs "([], 0)"]
    by (simp add: extract_restricted_vals_def)
  show "extract_inside_vals (ftp_dim ftp) rs ftp v = Some (select (map Not (rank_mask ftp rs)) v)"
    using extract_body_select[of v "map Not (rank_mask ftp rs)" "[]" "[]"] len
      rank_loops_inside[of ftp "\<lambda>b. extract_body b v" rs "([], 0)"]
    by (simp add: extract_inside_vals_def)
qed

lemma update_restricted_result:
  assumes wf: "ft_param_wf ftp" and v: "length v = nparams ftp"
  shows "ft_param_update_restricted_ranks ftp (select (rank_mask ftp rs) v) rs
         = Some (ftp\<lparr>params := merge_sel (rank_mask ftp rs) v (params ftp),
                     ftp_ft := function_train_update_params (ftp_ft ftp)
                                 (merge_sel (rank_mask ftp rs) v (params ftp))\<rparr>,
                 filter (\<lambda>g. rank_mask ftp rs ! g) [0..<nparams ftp])"
proof -
  let ?m = "rank_mask ftp rs"
  have len: "length v = length ?m" "length (params ftp) = length ?m" "length ?m = nparams ftp"
    using wf v by (simp_all add: length_rank_mask) (simp add: ft_param_wf_def)
  have "opt_fold (\<lambda>b. update_body b (select ?m v)) ?m (params ftp, 0, 0, [])
        = Some (merge_sel ?m v (params ftp), length (select ?m v), length ?m,
                select ?m [0..<length ?m])"
    using update_body_scatter[OF len(1) len(2), of "[]" "[]" "[]" "[]"] by simp
  then show ?thesis
    using len(3)
      rank_loops_at_or_above[of ftp "\<lambda>b. update_body b (select ?m v)" rs "(params ftp, 0, 0, [])"]
    by (simp add: ft_param_update_restricted_ranks_def select_upt_filter)
qed

lemma update_inside_result:
  assumes wf: "ft_param_wf ftp" and v: "length v = nparams ftp"
  shows "ft_param_update_inside_restricted_ranks ftp (select (map Not (rank_mask ftp rs)) v) rs
         = Some (ftp\<lparr>params := merge_sel (map Not (rank_mask ftp rs)) v (params ftp),
                     ftp_ft := function_train_update_params (ftp_ft ftp)
                                 (merge_sel (map Not (rank_mask ftp rs)) v (params ftp))\<rparr>,
                 filter (\<lambda>g. \<not> rank_mask ftp rs ! g) [0..<nparams ftp])"
proof -
  let ?m = "map Not (rank_mask ftp rs)"
  have len: "length v = length ?m" "length (params ftp) = length ?m" "length ?m = nparams ftp"
    using wf v by (simp_all add: length_rank_mask) (simp add: ft_param_wf_def)
  have "opt_fold (\<lambda>b. update_body b (select ?m v)) ?m (params ftp, 0, 0, [])
        = Some (merge_sel ?m v (params ftp), length (select ?m v), length ?m,
                select ?m [0..<length ?m])"
    using update_body_scatter[OF len(1) len(2), of "[]" "[]" "[]" "[]"] by simp
  moreover have "filter (\<lambda>g. ?m ! g) [0..<nparams ftp]
                 = filter (\<lambda>g. \<not> rank_mask ftp rs ! g) [0..<nparams ftp]"
    using len(3) by (intro filter_cong) auto
  ultimately show ?thesis
    using len(3)
      rank_loops_inside[of ftp "\<lambda>b. update_body b (select ?m v)" rs "(params ftp, 0, 0, [])"]
    by (simp add: ft_param_update_inside_restricted_ranks_def select_upt_filter)
qed

lemma sorted_wrt_concat_map:
  "(\<And>x. x \<in> set xs \<Longrightarrow> sorted_wrt R (f x)) \<Longrightarrow>
   sorted_wrt (\<lambda>x y. \<forall>a\<in>set (f x). \<forall>b\<in>set (f y). R a b) xs \<Longrightarrow>
   sorted_wrt R (concat (map f xs))"
  by (induction xs) (auto simp: sorted_wrt_append)

lemma sorted_wrt_upt_less: "sorted_wrt (<) [0..<n]"
  by (simp add: sorted_wrt_iff_nth_less)

lemma sorted_wrt_mono_rel':
  "sorted_wrt P xs \<Longrightarrow> (\<And>x y. x \<in> set xs \<Longrightarrow> y \<in> set xs \<Longrightarrow> P x y \<Longrightarrow> Q x y) \<Longrightarrow> sorted_wrt Q xs"
  by (rule sorted_wrt_mono_rel[of xs P Q]) auto

lemma uni_index_strict:
  "sorted_wrt (\<lambda>a b. rank_order_le a b \<and> a \<noteq> b) (uni_index d rks)"
  unfolding uni_index_def
  apply (rule sorted_wrt_concat_map)
   apply (rule sorted_wrt_concat_map)
    apply (simp add: sorted_wrt_map rank_order_le_def sorted_wrt_mono_rel'[OF sorted_wrt_upt_less])
   apply (rule sorted_wrt_mono_rel'[OF sorted_wrt_upt_less])
   apply (auto simp: rank_order_le_def)[1]
  apply (rule sorted_wrt_mono_rel'[OF sorted_wrt_upt_less])
  apply (auto simp: rank_order_le_def)
  done

lemma sorted_wrt_enumerate:
  "sorted_wrt R xs \<Longrightarrow> sorted_wrt (\<lambda>a b. R (snd a) (snd b)) (enumerate n xs)"
  by (induction xs arbitrary: n) (auto simp: in_set_enumerate_eq)

lemma param_index_sorted: "sorted_wrt rank_order_le (param_index d rks npu)"
  unfolding param_index_def
  apply (rule sorted_wrt_concat_map)
   apply (auto simp: sorted_wrt_iff_nth_less rank_order_le_def)[1]
  apply (rule sorted_wrt_mono_rel'[OF sorted_wrt_enumerate[OF uni_index_strict]])
  apply (auto split: prod.splits)
  done

lemma full_update_result:
  assumes wf: "ft_param_wf ftp" and v: "length v = nparams ftp"
  shows "ft_param_update_params ftp v
         = Some (ftp\<lparr>params := v, ftp_ft := (ftp_ft ftp)\<lparr>ft_vals := v\<rparr>\<rparr>)"
  using wf v by (simp add: ft_param_update_params_def memmove_def ft_param_wf_def
      function_train_update_params_def)

text \<open>
  Claim C2. For a well-formed \<open>FTparam\<close>, thresholds \<open>rank_start\<close> and a full parameter
  vector \<open>v\<close>: take from \<open>v\<close> the entries whose rank-index pair is at or above the thresholds
  (\<^verbatim>\<open>extract_restricted_vals\<close>) and the complementary entries, give the first part to
  \<^verbatim>\<open>ft_param_update_restricted_ranks\<close> and the second to
  \<^verbatim>\<open>ft_param_update_inside_restricted_ranks\<close>. Neither call leaves a buffer, the result is
  the \<open>FTparam\<close> that one \<^verbatim>\<open>ft_param_update_params\<close> with \<open>v\<close> produces, and the two calls
  together assign every index of the flat buffer exactly once. Both calls walk the buffer
  upwards and select by the rank-index triple of the entry, and those triples are ordered by
  dimension, then output-rank index, then input-rank index.
\<close>

theorem restricted_inside_roundtrip:
  assumes wf: "ft_param_wf ftp"
    and v: "length v = nparams ftp"
    and rs: "length rank_start = ftp_dim ftp"
  shows "\<exists>v1 v2 ftp1 w1 ftp2 w2.
           extract_restricted_vals (ftp_dim ftp) rank_start ftp v = Some v1 \<and>
           extract_inside_vals (ftp_dim ftp) rank_start ftp v = Some v2 \<and>
           ft_param_update_restricted_ranks ftp v1 rank_start = Some (ftp1, w1) \<and>
           ft_param_update_inside_restricted_ranks ftp1 v2 rank_start = Some (ftp2, w2) \<and>
           ft_param_update_params ftp v = Some ftp2 \<and>
           params ftp2 = v \<and>
           distinct (w1 @ w2) \<and> set (w1 @ w2) = {0..<nparams ftp} \<and>
           w1 = filter (\<lambda>g. case param_index (ftp_dim ftp) (ft_ranks (ftp_ft ftp))
                                   (nparams_per_uni ftp) ! g of
                               (kk, jj, ii) \<Rightarrow> at_or_above rank_start kk jj ii) [0..<nparams ftp] \<and>
           w2 = filter (\<lambda>g. case param_index (ftp_dim ftp) (ft_ranks (ftp_ft ftp))
                                   (nparams_per_uni ftp) ! g of
                               (kk, jj, ii) \<Rightarrow> inside rank_start kk jj ii) [0..<nparams ftp] \<and>
           sorted_wrt rank_order_le
             (param_index (ftp_dim ftp) (ft_ranks (ftp_ft ftp)) (nparams_per_uni ftp))"
proof -
  let ?m = "rank_mask ftp rank_start"
  let ?P = "param_index (ftp_dim ftp) (ft_ranks (ftp_ft ftp)) (nparams_per_uni ftp)"
  let ?p1 = "merge_sel ?m v (params ftp)"
  let ?ftp1 = "ftp\<lparr>params := ?p1, ftp_ft := function_train_update_params (ftp_ft ftp) ?p1\<rparr>"
  let ?w1 = "filter (\<lambda>g. ?m ! g) [0..<nparams ftp]"
  let ?w2 = "filter (\<lambda>g. \<not> ?m ! g) [0..<nparams ftp]"
  have lm: "length ?m = nparams ftp"
    using wf by (rule length_rank_mask)
  have lp: "length (params ftp) = nparams ftp" "length (ft_vals (ftp_ft ftp)) = nparams ftp"
    using wf by (simp_all add: ft_param_wf_def)
  have lp1: "length ?p1 = nparams ftp"
    using length_merge_sel[of v ?m "params ftp"] v lm lp by simp
  have wf1: "ft_param_wf ?ftp1"
    using wf lp1 by (simp add: ft_param_wf_def function_train_update_params_def)
  have m1: "rank_mask ?ftp1 rank_start = ?m"
    by (simp add: rank_mask_def function_train_update_params_def)
  have n1: "nparams ?ftp1 = nparams ftp" by simp
  have e1: "extract_restricted_vals (ftp_dim ftp) rank_start ftp v = Some (select ?m v)"
    and e2: "extract_inside_vals (ftp_dim ftp) rank_start ftp v = Some (select (map Not ?m) v)"
    using restricted_values[OF wf v] by simp_all
  have u1: "ft_param_update_restricted_ranks ftp (select ?m v) rank_start = Some (?ftp1, ?w1)"
    using update_restricted_result[OF wf v] by simp
  have compl: "merge_sel (map Not ?m) v ?p1 = v"
    using merge_sel_complement[of v ?m "params ftp"] v lm lp by simp
  have v1: "length v = nparams ?ftp1"
    using v by simp
  note r = update_inside_result[OF wf1 v1, of rank_start, unfolded m1]
  have p1: "params ?ftp1 = ?p1"
    by simp
  have rec_eq: "?ftp1\<lparr>params := merge_sel (map Not ?m) v (params ?ftp1),
                     ftp_ft := function_train_update_params (ftp_ft ?ftp1)
                                 (merge_sel (map Not ?m) v (params ?ftp1))\<rparr>
                = ftp\<lparr>params := v, ftp_ft := (ftp_ft ftp)\<lparr>ft_vals := v\<rparr>\<rparr>"
    unfolding p1 compl using v lp lp1 by (simp add: function_train_update_params_def)
  have u2: "ft_param_update_inside_restricted_ranks ?ftp1 (select (map Not ?m) v) rank_start
            = Some (ftp\<lparr>params := v, ftp_ft := (ftp_ft ftp)\<lparr>ft_vals := v\<rparr>\<rparr>, ?w2)"
    using r unfolding rec_eq n1 .
  have full: "ft_param_update_params ftp v
              = Some (ftp\<lparr>params := v, ftp_ft := (ftp_ft ftp)\<lparr>ft_vals := v\<rparr>\<rparr>)"
    by (rule full_update_result[OF wf v])
  have sel1: "?w1 = select ?m [0..<nparams ftp]"
    using select_upt_filter[of ?m "nparams ftp"] lm by simp
  have "filter (\<lambda>g. \<not> ?m ! g) [0..<nparams ftp] = filter (\<lambda>g. map Not ?m ! g) [0..<nparams ftp]"
    using lm by (intro filter_cong) auto
  then have sel2: "?w2 = select (map Not ?m) [0..<nparams ftp]"
    using select_upt_filter[of "map Not ?m" "nparams ftp"] lm by simp
  have d: "distinct (?w1 @ ?w2)"
    unfolding sel1 sel2 using select_partition_distinct[of "[0..<nparams ftp]" ?m] lm by simp
  have st: "set (?w1 @ ?w2) = {0..<nparams ftp}"
    by auto
  have lP: "length ?P = nparams ftp"
    using lm by (simp add: rank_mask_def)
  have w1: "?w1 = filter (\<lambda>g. case ?P ! g of (kk, jj, ii) \<Rightarrow> at_or_above rank_start kk jj ii)
                    [0..<nparams ftp]"
    using lP by (intro filter_cong) (auto simp: rank_mask_def)
  have w2: "?w2 = filter (\<lambda>g. case ?P ! g of (kk, jj, ii) \<Rightarrow> inside rank_start kk jj ii)
                    [0..<nparams ftp]"
    using lP by (intro filter_cong) (auto simp: rank_mask_def inside_not_at_or_above split: prod.splits)
  have pv: "params (ftp\<lparr>params := v, ftp_ft := (ftp_ft ftp)\<lparr>ft_vals := v\<rparr>\<rparr>) = v"
    by simp
  show ?thesis
    by (rule exI[of _ "select ?m v"], rule exI[of _ "select (map Not ?m) v"],
        rule exI[of _ ?ftp1], rule exI[of _ ?w1],
        rule exI[of _ "ftp\<lparr>params := v, ftp_ft := (ftp_ft ftp)\<lparr>ft_vals := v\<rparr>\<rparr>"],
        rule exI[of _ ?w2])
       (intro conjI e1 e2 u1 u2 full pv d st w1 w2 param_index_sorted)
qed

text \<open>
  An instance: two dimensions, ranks \<open>[1, 2, 1]\<close>, two parameters per univariate function in
  the first core and one in the second, as \<^verbatim>\<open>ft_param_alloc\<close> builds it.
\<close>

lemma example_ftp_alloc: "ft_param_alloc 2 example_aopts None [1, 2, 1] = Some example_ftp"
  by (simp add: ft_param_alloc_def example_aopts_def example_ftp_def function_train_zeros_def
      multi_approx_opts_get_dim_nparams_def Let_def upt_rec[of 0] upt_rec[of 1] upt_rec[of 2]
      numeral_2_eq_2 numeral_eq_Suc)

lemma example_ftp_wf: "ft_param_wf example_ftp"
  by code_simp

theorem restricted_inside_roundtrip_witness:
  "ft_param_wf example_ftp \<and> length example_vals = nparams example_ftp \<and>
   length [1, 1 :: nat] = ftp_dim example_ftp \<and>
   (\<exists>v1 v2 ftp1 w1 ftp2 w2.
      extract_restricted_vals (ftp_dim example_ftp) [1, 1] example_ftp example_vals = Some v1 \<and>
      extract_inside_vals (ftp_dim example_ftp) [1, 1] example_ftp example_vals = Some v2 \<and>
      ft_param_update_restricted_ranks example_ftp v1 [1, 1] = Some (ftp1, w1) \<and>
      ft_param_update_inside_restricted_ranks ftp1 v2 [1, 1] = Some (ftp2, w2) \<and>
      ft_param_update_params example_ftp example_vals = Some ftp2 \<and>
      params ftp2 = example_vals \<and>
      distinct (w1 @ w2) \<and> set (w1 @ w2) = {0..<nparams example_ftp})"
proof -
  have h1: "ft_param_wf example_ftp"
    by (rule example_ftp_wf)
  have h2: "length example_vals = nparams example_ftp"
    by (simp add: example_vals_def example_ftp_def)
  have h3: "length [1, 1 :: nat] = ftp_dim example_ftp"
    by (simp add: example_ftp_def)
  show ?thesis
    using restricted_inside_roundtrip[OF h1 h2 h3] h1 h2 h3 by blast
qed

subsection \<open>The linear-structure cache\<close>






subsection \<open>The function monitor\<close>














subsection \<open>Arithmetic on finite values, and folds that can abort\<close>

lemma dadd_Fin [simp]: "dadd (Fin a) (Fin b) = Fin (a + b)"
  by (simp add: dadd_def)

lemma dsub_Fin [simp]: "dsub (Fin a) (Fin b) = Fin (a - b)"
  by (simp add: dsub_def)

lemma dmul_Fin [simp]: "dmul (Fin a) (Fin b) = Fin (a * b)"
  by (simp add: dmul_def)

lemma ddiv_Fin [simp]: "b \<noteq> 0 \<Longrightarrow> ddiv (Fin a) (Fin b) = Fin (a / b)"
  by (simp add: ddiv_def)

lemma isnan_Fin [simp]: "\<not> isnan (Fin a)"
  by (simp add: isnan_def)

lemma isinf_Fin [simp]: "\<not> isinf (Fin a)"
  by (simp add: isinf_def)

lemma rbind_Inr [simp]: "rbind (Inr v) f = f v"
  by (simp add: rbind_def)

lemma rbind_Inl [simp]: "rbind (Inl e) f = Inl e"
  by (simp add: rbind_def)

lemma fold_rbind_Inl: "fold (\<lambda>x r. rbind r (f x)) xs (Inl e) = Inl e"
  by (induction xs) simp_all

lemma res_fold_Nil [simp]: "res_fold f [] s = Inr s"
  by (simp add: res_fold_def)

lemma res_fold_Cons [simp]: "res_fold f (x # xs) s = rbind (f x s) (res_fold f xs)"
  by (cases "f x s") (simp_all add: res_fold_def fold_rbind_Inl)

lemma res_fold_append: "res_fold f (xs @ ys) s = rbind (res_fold f xs s) (res_fold f ys)"
proof (induction xs arbitrary: s)
  case Nil
  then show ?case by simp
next
  case (Cons x xs)
  then show ?case by (cases "f x s") simp_all
qed

lemma res_fold_single: "res_fold f [x] = f x"
proof
  fix s show "res_fold f [x] s = f x s"
    by (cases "f x s") simp_all
qed

lemma res_fold_snoc: "res_fold f [0..<Suc n] s = rbind (res_fold f [0..<n] s) (f n)"
  by (simp add: res_fold_append res_fold_single)

subsection \<open>The least-squares objectives\<close>




lemma nograd_loop:
  assumes "n \<le> N" "N \<le> length yr" "N \<le> length er"
  shows "res_fold (ls_point_nograd (map Fin yr) (map Fin er)) [0..<n] (Fin 0)
         = Inr (Fin (ls_sum yr er n))"
  using assms(1)
proof (induction n)
  case 0
  then show ?case by (simp add: ls_sum_def)
next
  case (Suc n)
  have n: "n < length yr" "n < length er"
    using Suc.prems assms(2,3) by simp_all
  have IH: "res_fold (ls_point_nograd (map Fin yr) (map Fin er)) [0..<n] (Fin 0)
            = Inr (Fin (ls_sum yr er n))"
    using Suc by simp
  have "ls_point_nograd (map Fin yr) (map Fin er) n (Fin (ls_sum yr er n))
        = Inr (Fin (ls_sum yr er (Suc n)))"
    using n by (simp add: ls_point_nograd_def Let_def ls_sum_def power2_eq_square)
  then show ?case
    by (simp only: res_fold_snoc IH rbind_Inr)
qed



lemma aio_ls_nograd_value:
  assumes N: "0 < N" "N \<le> length yr" "N \<le> length er"
    and ev: "function_train_param_eval lib (ftp_ft ftp) N x = map Fin er"
  shows "ft_param_eval_objective_aio_ls lib ftp mem N x (map Fin yr) None
         = Inr (Fin (ls_sum yr er N / real N), None,
                mem\<lparr>evals := (evals mem)\<lparr>vals := map Fin er\<rparr>\<rparr>)"
  unfolding ft_param_eval_objective_aio_ls_def
  using N(1) nograd_loop[OF order_refl N(2,3)]
  by (simp add: ev of_size_def del: map_map)


lemma als_ls_nograd_value:
  assumes N: "0 < N" "N \<le> length yr" "N \<le> length er"
    and core: "core < length (nparams_per_core ftp)"
    and ev: "function_train_core_param_eval lib (ftp_ft ftp) core N x mem = map Fin er"
  shows "ft_param_eval_objective_als_ls lib ftp core mem N x (map Fin yr) None
         = Inr (Fin (ls_sum yr er N / real N), None,
                mem\<lparr>evals := (evals mem)\<lparr>vals := map Fin er\<rparr>\<rparr>)"
  unfolding ft_param_eval_objective_als_ls_def
  using N(1) core nograd_loop[OF order_refl N(2,3)]
  by (simp add: ev of_size_def Let_def del: map_map)


lemma core_nograd_loop:
  assumes "n \<le> als_N als" "als_N als \<le> length yr" "als_y als = map Fin yr"
    and ev: "\<forall>i<als_N als. fe (als_ft als) (take (als_dim als) (drop (i * als_dim als) (als_x als)))
                            = Fin (er ! i)"
  shows "res_fold (core_ls_point_nograd fe als) [0..<n] (Fin 0) = Inr (Fin (ls_sum yr er n))"
  using assms(1)
proof (induction n)
  case 0
  then show ?case by (simp add: ls_sum_def)
next
  case (Suc n)
  have n: "n < length yr" "n < als_N als"
    using Suc.prems assms(2) by simp_all
  have IH: "res_fold (core_ls_point_nograd fe als) [0..<n] (Fin 0) = Inr (Fin (ls_sum yr er n))"
    using Suc by simp
  have "core_ls_point_nograd fe als n (Fin (ls_sum yr er n)) = Inr (Fin (ls_sum yr er (Suc n)))"
    using n ev assms(3) by (simp add: core_ls_point_nograd_def Let_def ls_sum_def power2_eq_square)
  then show ?case
    by (simp only: res_fold_snoc IH rbind_Inr)
qed


lemma regress_core_LS_nograd_value:
  assumes "als_core als < length (als_nparams als)" "np = als_nparams als ! als_core als"
    and "als_N als \<le> length yr" "als_y als = map Fin yr"
    and ev: "\<forall>i<als_N als. fe (cu (als_ft als) (als_core als) np param)
                              (take (als_dim als) (drop (i * als_dim als) (als_x als)))
                            = Fin (er ! i)"
  shows "regress_core_LS cge fe cu np param None als
         = Inr (Fin (ls_sum yr er (als_N als)), None,
                als\<lparr>als_ft := cu (als_ft als) (als_core als) np param\<rparr>)"
proof -
  let ?als1 = "als\<lparr>als_ft := cu (als_ft als) (als_core als) np param\<rparr>"
  have "res_fold (core_ls_point_nograd fe ?als1) [0..<als_N ?als1] (Fin 0)
        = Inr (Fin (ls_sum yr er (als_N ?als1)))"
    by (rule core_nograd_loop[of "als_N ?als1" ?als1 yr fe er]) (use assms in simp_all)
  then show ?thesis
    using assms(1,2) by (simp add: regress_core_LS_def zero_grad_def Let_def)
qed








lemma dadd_NaN [simp]: "dadd x NaN = NaN" "dadd NaN x = NaN"
  by (simp_all add: dadd_def)

lemma dmul_NaN [simp]: "dmul x NaN = NaN" "dmul NaN x = NaN"
  by (simp_all add: dmul_def)

lemma ddiv_NaN [simp]: "ddiv x NaN = NaN" "ddiv NaN x = NaN"
  by (simp_all add: ddiv_def)

lemma dsub_NaN [simp]: "dsub x NaN = NaN" "dsub NaN x = NaN"
  by (simp_all add: dsub_def)

lemma isnan_NaN [simp]: "isnan NaN" "\<not> isinf NaN"
  by (simp_all add: isnan_def isinf_def)













































end
